theory Spec2Isabelle
  imports Complex_Main "HOL-Library.Multiset"
begin

section \<open>computeStatistics.py: descriptive statistics over a list of numbers\<close>

text \<open>
  The values of a dataset are modelled as exact reals, the spec's data model: the arithmetic
  of \<open>CalculadoraEstadistica\<close> is the arithmetic of \<^typ>\<open>real\<close>, and neither the rounding
  nor the range of Python's \<open>float\<close> is part of it. The non-finite values that \<open>float()\<close>
  can produce appear only in the model of the file reader, in the type \<open>pyfloat\<close> below.
\<close>

subsection \<open>Exceptions\<close>

datatype causa =
    NoEncontrado    \<comment> \<open>"No se encontro el archivo: ..."\<close>
  | ErrorLectura    \<comment> \<open>"Error al leer el archivo: ..."\<close>
  | SinNumeros      \<comment> \<open>"No se encontraron numeros validos en el archivo"\<close>

datatype error =
    ArchivoError causa
  | ZeroDivisionError
  | IndexError
  | ValueError

subsection \<open>The Python primitives the module uses\<close>



text \<open>
  \<open>xs[i]\<close>: the indices \<open>-len(xs)\<close> to \<open>-1\<close> address the list from its end, an index outside
  \<open>-len(xs) .. len(xs) - 1\<close> raises IndexError.
\<close>

definition py_getitem :: "'a list \<Rightarrow> int \<Rightarrow> error + 'a" where
  "py_getitem xs i =
     (if i < - int (length xs) \<or> int (length xs) \<le> i then Inl IndexError
      else if i < 0 then Inr (xs ! nat (int (length xs) + i))
      else Inr (xs ! nat i))"

text \<open>\<open>max(iterable)\<close>: ValueError on an empty iterable.\<close>

fun py_max :: "nat list \<Rightarrow> error + nat" where
  "py_max [] = Inl ValueError"
| "py_max (x # xs) = Inr (fold max xs x)"

text \<open>
  A \<open>dict\<close> keeps its keys in insertion order: an association list without repeated keys.
  \<open>d.get(k, default)\<close> and \<open>d[k] = v\<close>; storing under an existing key keeps the key's
  position, a new key goes to the end.
\<close>

type_synonym ('k, 'v) dict = "('k \<times> 'v) list"

fun dict_get :: "('k, 'v) dict \<Rightarrow> 'k \<Rightarrow> 'v \<Rightarrow> 'v" where
  "dict_get [] k d = d"
| "dict_get ((k', v) # kvs) k d = (if k' = k then v else dict_get kvs k d)"

fun dict_setitem :: "('k, 'v) dict \<Rightarrow> 'k \<Rightarrow> 'v \<Rightarrow> ('k, 'v) dict" where
  "dict_setitem [] k v = [(k, v)]"
| "dict_setitem ((k', v') # kvs) k v =
     (if k' = k then (k', v) # kvs else (k', v') # dict_setitem kvs k v)"

subsection \<open>class CalculadoraEstadistica\<close>

record CalculadoraEstadistica =
  datos :: "real list"
  n_elementos :: int

text \<open>\<open>__init__\<close>\<close>

definition init :: "real list \<Rightarrow> CalculadoraEstadistica" where
  "init ds = \<lparr>datos = ds, n_elementos = int (length ds)\<rparr>"


definition calcular_mediana :: "CalculadoraEstadistica \<Rightarrow> error + real" where
  "calcular_mediana self =
     (let ordenados = sort (datos self);
          mitad = n_elementos self div 2
      in if n_elementos self mod 2 = 0 then
           (case py_getitem ordenados (mitad - 1) of
              Inl e \<Rightarrow> Inl e
            | Inr a \<Rightarrow>
                (case py_getitem ordenados mitad of
                   Inl e \<Rightarrow> Inl e
                 | Inr b \<Rightarrow> Inr ((a + b) / 2)))
         else py_getitem ordenados mitad)"

text \<open>
  The result of \<open>calcular_moda\<close> is a float or one of two messages; the messages are the
  constructors \<open>SinModa\<close> ("No hay moda (todos los valores aparecen una vez)") and
  \<open>ModasMultiples\<close> ("Multiples modas: [...]", with the list it prints).
\<close>

datatype resultado_moda =
    Moda real
  | SinModa
  | ModasMultiples "real list"

text \<open>The loop that fills \<open>frecuencias\<close>.\<close>

fun contar :: "(real, nat) dict \<Rightarrow> real list \<Rightarrow> (real, nat) dict" where
  "contar frecuencias [] = frecuencias"
| "contar frecuencias (numero # resto) =
     contar (dict_setitem frecuencias numero (dict_get frecuencias numero 0 + 1)) resto"

definition calcular_moda :: "CalculadoraEstadistica \<Rightarrow> error + resultado_moda" where
  "calcular_moda self =
     (let frecuencias = contar [] (datos self)
      in case py_max (map snd frecuencias) of
           Inl e \<Rightarrow> Inl e
         | Inr max_frecuencia \<Rightarrow>
             (let modas = map fst (filter (\<lambda>(num, freq). freq = max_frecuencia) frecuencias)
              in if int (length modas) = n_elementos self then Inr SinModa
                 else if length modas > 1 then Inr (ModasMultiples modas)
                 else (case py_getitem modas 0 of
                         Inl e \<Rightarrow> Inl e
                       | Inr m \<Rightarrow> Inr (Moda m))))"




subsection \<open>float(linea.strip())\<close>

text \<open>
  What \<open>float()\<close> returns for a string: a finite value (the exact value of the decimal
  numeral, see above), an infinity or a NaN. Strings are lists of 8-bit characters, read as
  the code points 0 to 255.
\<close>

datatype pyfloat = Finito real | Inf | NegInf | NaN

text \<open>\<open>str.isspace\<close> on the code points below 256.\<close>

definition es_espacio :: "char \<Rightarrow> bool" where
  "es_espacio c =
     (let n = (of_char c :: nat)
      in (9 \<le> n \<and> n \<le> 13) \<or> (28 \<le> n \<and> n \<le> 32) \<or> n = 133 \<or> n = 160)"

definition py_strip :: "string \<Rightarrow> string" where
  "py_strip s = rev (dropWhile es_espacio (rev (dropWhile es_espacio s)))"

definition es_digito :: "char \<Rightarrow> bool" where
  "es_digito c = (let n = (of_char c :: nat) in 48 \<le> n \<and> n \<le> 57)"

definition valor_digito :: "char \<Rightarrow> nat" where
  "valor_digito c = of_char c - 48"

text \<open>The lower-case form of an ASCII letter; any other character is left as it is.\<close>

definition minuscula :: "char \<Rightarrow> char" where
  "minuscula c =
     (case map_of (zip ''ABCDEFGHIJKLMNOPQRSTUVWXYZ'' ''abcdefghijklmnopqrstuvwxyz'') c of
        Some l \<Rightarrow> l
      | None \<Rightarrow> c)"

text \<open>
  The grammar of the argument of \<open>float()\<close>, after the surrounding whitespace is gone:
  \<^verbatim>\<open>
  floatvalue  ::= [sign] (floatnumber | "inf" | "infinity" | "nan")   (letters in any case)
  floatnumber ::= number [("e" | "E") [sign] digitpart]
  number      ::= [digitpart] "." digitpart | digitpart ["."]
  digitpart   ::= digit (["_"] digit)*
  \<close>
  \<open>seguir_digitos v k s\<close> continues a digitpart whose value so far is \<open>v\<close>, with \<open>k\<close> digits
  read: it returns the value, the number of digits and the rest of the string.
\<close>

fun seguir_digitos :: "nat \<Rightarrow> nat \<Rightarrow> string \<Rightarrow> nat \<times> nat \<times> string" where
  "seguir_digitos v k [] = (v, k, [])"
| "seguir_digitos v k [c] =
     (if es_digito c then (10 * v + valor_digito c, k + 1, []) else (v, k, [c]))"
| "seguir_digitos v k (c # c' # cs) =
     (if es_digito c then seguir_digitos (10 * v + valor_digito c) (k + 1) (c' # cs)
      else if c = CHR ''_'' \<and> es_digito c' then seguir_digitos (10 * v + valor_digito c') (k + 1) cs
      else (v, k, c # c' # cs))"

fun digitpart :: "string \<Rightarrow> (nat \<times> nat \<times> string) option" where
  "digitpart [] = None"
| "digitpart (c # cs) =
     (if es_digito c then Some (seguir_digitos (valor_digito c) 1 cs) else None)"

text \<open>\<open>number\<close>: the value of the mantissa and the rest of the string.\<close>

definition numero_decimal :: "string \<Rightarrow> (real \<times> string) option" where
  "numero_decimal s =
     (case digitpart s of
        Some (v, k, resto) \<Rightarrow>
          (case resto of
             c # resto' \<Rightarrow>
               (if c = CHR ''.'' then
                  (case digitpart resto' of
                     Some (v', k', resto'') \<Rightarrow> Some (real v + real v' / 10 ^ k', resto'')
                   | None \<Rightarrow> Some (real v, resto'))
                else Some (real v, resto))
           | [] \<Rightarrow> Some (real v, []))
      | None \<Rightarrow>
          (case s of
             c # resto \<Rightarrow>
               (if c = CHR ''.'' then
                  (case digitpart resto of
                     Some (v', k', resto') \<Rightarrow> Some (real v' / 10 ^ k', resto')
                   | None \<Rightarrow> None)
                else None)
           | [] \<Rightarrow> None))"

text \<open>An optional sign: \<open>True\<close> for "-".\<close>

fun signo :: "string \<Rightarrow> bool \<times> string" where
  "signo [] = (False, [])"
| "signo (c # cs) =
     (if c = CHR ''-'' then (True, cs) else if c = CHR ''+'' then (False, cs) else (False, c # cs))"

definition floatnumber :: "string \<Rightarrow> real option" where
  "floatnumber s =
     (case numero_decimal s of
        None \<Rightarrow> None
      | Some (m, resto) \<Rightarrow>
          (case resto of
             [] \<Rightarrow> Some m
           | c # resto' \<Rightarrow>
               (if c = CHR ''e'' \<or> c = CHR ''E'' then
                  (let (negativo, ds) = signo resto'
                   in case digitpart ds of
                        Some (e, k, []) \<Rightarrow> Some (if negativo then m / 10 ^ e else m * 10 ^ e)
                      | _ \<Rightarrow> None)
                else None)))"

text \<open>
  A decimal value at or beyond the midpoint between the largest double and \<open>2 ^ 1024\<close>
  becomes an infinity.
\<close>

definition limite_double :: real where
  "limite_double = 2 ^ 1024 - 2 ^ 970"

definition py_float :: "string \<Rightarrow> pyfloat option" where
  "py_float s =
     (let (negativo, cuerpo) = signo s;
          nombre = map minuscula cuerpo
      in if nombre = ''inf'' \<or> nombre = ''infinity'' then Some (if negativo then NegInf else Inf)
         else if nombre = ''nan'' then Some NaN
         else (case floatnumber cuerpo of
                 None \<Rightarrow> None
               | Some x \<Rightarrow>
                   Some (if limite_double \<le> x then (if negativo then NegInf else Inf)
                         else Finito (if negativo then - x else x))))"

subsection \<open>leer_archivo\<close>

text \<open>
  What \<open>open(ruta_archivo)\<close> and the iteration over the file deliver: no such file
  (FileNotFoundError); all the lines of the file; or some lines and then any other exception
  raised inside the \<open>with\<close> block (\<open>open\<close> itself failing is \<open>Interrumpido []\<close>).
\<close>

datatype archivo =
    NoExiste
  | Contenido "string list"
  | Interrumpido "string list"

text \<open>What \<open>print\<close> wrote: for each rejected line its number and its stripped text.\<close>

type_synonym impreso = "(nat \<times> string) list"

fun leer_lineas :: "nat \<Rightarrow> string list \<Rightarrow> pyfloat list \<times> impreso \<Rightarrow> pyfloat list \<times> impreso" where
  "leer_lineas num_linea [] estado = estado"
| "leer_lineas num_linea (linea # resto) (numeros, salida) =
     (case py_float (py_strip linea) of
        Some numero \<Rightarrow> leer_lineas (num_linea + 1) resto (numeros @ [numero], salida)
      | None \<Rightarrow>
          leer_lineas (num_linea + 1) resto (numeros, salida @ [(num_linea, py_strip linea)]))"

definition leer_archivo :: "archivo \<Rightarrow> impreso \<times> (error + pyfloat list)" where
  "leer_archivo a =
     (case a of
        NoExiste \<Rightarrow> ([], Inl (ArchivoError NoEncontrado))
      | Interrumpido lineas \<Rightarrow>
          (snd (leer_lineas 1 lineas ([], [])), Inl (ArchivoError ErrorLectura))
      | Contenido lineas \<Rightarrow>
          (let (numeros, salida) = leer_lineas 1 lineas ([], [])
           in if numeros = [] then (salida, Inl (ArchivoError SinNumeros))
              else (salida, Inr numeros)))"

section \<open>Notions used to state the properties\<close>

text \<open>
  The highest number of occurrences of a value of the dataset, and the set of values tied at
  it.
\<close>

definition frecuencia_maxima :: "real list \<Rightarrow> nat" where
  "frecuencia_maxima ds = Max (count_list ds ` set ds)"

definition empatados :: "real list \<Rightarrow> real set" where
  "empatados ds = {v \<in> set ds. count_list ds v = frecuencia_maxima ds}"

text \<open>The position at which a value first appears when the list is scanned from its start.\<close>

definition primera_posicion :: "'a list \<Rightarrow> 'a \<Rightarrow> nat" where
  "primera_posicion xs v = length (takeWhile (\<lambda>x. x \<noteq> v) xs)"

text \<open>The distinct values of a list, each at the place of its first occurrence.\<close>

fun primeras :: "'a list \<Rightarrow> 'a list" where
  "primeras [] = []"
| "primeras (x # xs) = x # filter (\<lambda>y. y \<noteq> x) (primeras xs)"

definition modas_de :: "real list \<Rightarrow> real list" where
  "modas_de ds = filter (\<lambda>k. count_list ds k = frecuencia_maxima ds) (primeras ds)"

section \<open>Mean and variance\<close>



lemma py_getitem_nat: "i < length xs \<Longrightarrow> py_getitem xs (int i) = Inr (xs ! i)"
  by (simp add: py_getitem_def)






section \<open>Median\<close>

lemma mediana_formula:
  assumes "ds \<noteq> []"
  shows "calcular_mediana (init ds) =
     Inr (if odd (length ds) then sort ds ! (length ds div 2)
          else (sort ds ! (length ds div 2 - 1) + sort ds ! (length ds div 2)) / 2)"
proof -
  let ?n = "length ds"
  have n: "0 < ?n" using assms by simp
  have half: "int ?n div 2 = int (?n div 2)" by simp
  have lt: "?n div 2 < ?n" using n by simp
  show ?thesis
  proof (cases "odd ?n")
    case True
    then have "int ?n mod 2 \<noteq> 0" by presburger
    with True lt show ?thesis
      by (simp add: calcular_mediana_def init_def half py_getitem_nat Let_def)
  next
    case False
    then have ev: "int ?n mod 2 = 0" by presburger
    from False n have "1 \<le> ?n div 2" by presburger
    then have pred: "int (?n div 2) - 1 = int (?n div 2 - 1)" by simp
    have lt': "?n div 2 - 1 < ?n" using n by arith
    from False ev lt lt' show ?thesis
      by (simp add: calcular_mediana_def init_def half pred py_getitem_nat Let_def)
  qed
qed





text \<open>
  C7. For every non-empty dataset and every permutation of it, the median operation returns
  the same value on both.
\<close>

theorem mediana_invariante:
  assumes "ds \<noteq> []" and "mset ds' = mset ds"
  shows "\<exists>m. calcular_mediana (init ds) = Inr m \<and> calcular_mediana (init ds') = Inr m"
proof -
  from assms have ne: "ds' \<noteq> []" by auto
  have s: "sort ds' = sort ds"
    using assms(2) by (simp add: properties_for_sort)
  have l: "length ds' = length ds"
    using assms(2) by (rule mset_eq_length)
  show ?thesis
    using mediana_formula [OF assms(1)] mediana_formula [OF ne] by (simp add: s l)
qed

theorem mediana_invariante_witness:
  "[5, 1, 4, 2] \<noteq> ([] :: real list) \<and> mset [2, 4, 1, 5 :: real] = mset [5, 1, 4, 2]
   \<and> (\<exists>m. calcular_mediana (init [5, 1, 4, 2]) = Inr m \<and> calcular_mediana (init [2, 4, 1, 5]) = Inr m)"
  using mediana_invariante [of "[5, 1, 4, 2]" "[2, 4, 1, 5]"] by simp


section \<open>Mode\<close>

lemma set_primeras: "set (primeras xs) = set xs"
  by (induction xs) auto

lemma distinct_primeras: "distinct (primeras xs)"
  by (induction xs) auto

lemma primeras_en_orden:
  "sorted_wrt (\<lambda>a b. primera_posicion xs a < primera_posicion xs b) (primeras xs)"
proof (induction xs)
  case Nil
  show ?case by simp
next
  case (Cons x xs)
  have "sorted_wrt (\<lambda>a b. primera_posicion xs a < primera_posicion xs b)
          (filter (\<lambda>y. y \<noteq> x) (primeras xs))"
    using Cons.IH by (rule sorted_wrt_filter)
  then have "sorted_wrt (\<lambda>a b. primera_posicion (x # xs) a < primera_posicion (x # xs) b)
          (filter (\<lambda>y. y \<noteq> x) (primeras xs))"
    by (rule sorted_wrt_mono_rel [rotated]) (auto simp: primera_posicion_def)
  moreover have "\<forall>y\<in>set (filter (\<lambda>y. y \<noteq> x) (primeras xs)).
      primera_posicion (x # xs) x < primera_posicion (x # xs) y"
    by (auto simp: primera_posicion_def)
  ultimately show ?case by simp
qed

lemma keys_dict_setitem:
  "map fst (dict_setitem d k v) = (if k \<in> fst ` set d then map fst d else map fst d @ [k])"
  by (induction d) force+

lemma dict_get_setitem:
  "dict_get (dict_setitem d k v) k' dflt = (if k' = k then v else dict_get d k' dflt)"
  by (induction d) auto

lemma dict_get_contar:
  "dict_get (contar fr xs) k 0 = dict_get fr k 0 + count_list xs k"
  by (induction xs arbitrary: fr) (auto simp: dict_get_setitem)

lemma keys_contar:
  "map fst (contar fr xs) = map fst fr @ filter (\<lambda>x. x \<notin> fst ` set fr) (primeras xs)"
proof (induction xs arbitrary: fr)
  case Nil
  show ?case by simp
next
  case (Cons x xs)
  show ?case
  proof (cases "x \<in> fst ` set fr")
    case True
    then have "filter (\<lambda>y. y \<notin> fst ` set fr) (filter (\<lambda>y. y \<noteq> x) (primeras xs))
        = filter (\<lambda>y. y \<notin> fst ` set fr) (primeras xs)"
      by (auto intro!: filter_cong)
    with True show ?thesis
      by (simp add: Cons.IH keys_dict_setitem set_map [symmetric] del: set_map)
  next
    case False
    have "filter (\<lambda>y. y \<notin> insert x (fst ` set fr)) (primeras xs)
        = filter (\<lambda>y. y \<notin> fst ` set fr) (filter (\<lambda>y. y \<noteq> x) (primeras xs))"
      by (auto intro!: filter_cong)
    with False show ?thesis
      by (simp add: Cons.IH keys_dict_setitem set_map [symmetric] del: set_map)
  qed
qed

lemma dict_por_claves:
  "distinct (map fst d) \<Longrightarrow> map (\<lambda>k. (k, dict_get d k dflt)) (map fst d) = d"
proof (induction d)
  case Nil
  show ?case by simp
next
  case (Cons p d)
  obtain a b where p: "p = (a, b)" by (cases p)
  from Cons.prems p have a: "a \<notin> fst ` set d" and dd: "distinct (map fst d)" by auto
  have "map (\<lambda>k. (k, dict_get ((a, b) # d) k dflt)) (map fst d)
      = map (\<lambda>k. (k, dict_get d k dflt)) (map fst d)"
    using a by (intro map_cong) auto
  with Cons.IH [OF dd] show ?case by (simp add: p)
qed

lemma contar_vacio:
  "contar [] ds = map (\<lambda>k. (k, count_list ds k)) (primeras ds)"
proof -
  have k: "map fst (contar [] ds) = primeras ds"
    by (simp add: keys_contar)
  then have "distinct (map fst (contar [] ds))"
    by (simp add: distinct_primeras)
  from dict_por_claves [OF this, of 0] show ?thesis
    by (simp add: k dict_get_contar)
qed

lemma py_max_Max: "xs \<noteq> [] \<Longrightarrow> py_max xs = Inr (Max (set xs))"
  by (cases xs) (simp_all add: Max.set_eq_fold [symmetric])

lemma modas_filtradas:
  "map fst (filter (\<lambda>(num, freq). freq = m) (map (\<lambda>k. (k, f k)) ks)) = filter (\<lambda>k. f k = m) ks"
  by (induction ks) auto

lemma set_modas_de: "set (modas_de ds) = empatados ds"
  by (auto simp: modas_de_def empatados_def set_primeras)

lemma distinct_modas_de: "distinct (modas_de ds)"
  by (simp add: modas_de_def distinct_primeras)

lemma length_modas_de: "length (modas_de ds) = card (empatados ds)"
  using distinct_card [OF distinct_modas_de, of ds] by (simp add: set_modas_de)

lemma modas_de_en_orden:
  "sorted_wrt (\<lambda>a b. primera_posicion ds a < primera_posicion ds b) (modas_de ds)"
  unfolding modas_de_def by (rule sorted_wrt_filter) (rule primeras_en_orden)

lemma calcular_moda_eq:
  assumes "ds \<noteq> []"
  shows "calcular_moda (init ds) =
     (if card (empatados ds) = length ds then Inr SinModa
      else if 1 < card (empatados ds) then Inr (ModasMultiples (modas_de ds))
      else Inr (Moda (hd (modas_de ds))))"
proof -
  from assms have "primeras ds \<noteq> []" by (cases ds) simp_all
  then have mx: "py_max (map (count_list ds) (primeras ds)) = Inr (frecuencia_maxima ds)"
    by (simp add: py_max_Max frecuencia_maxima_def set_primeras)
  have ne: "empatados ds \<noteq> {}"
  proof -
    have "Max (count_list ds ` set ds) \<in> count_list ds ` set ds"
      using assms by (intro Max_in) auto
    then show ?thesis by (auto simp: empatados_def frecuencia_maxima_def)
  qed
  then have "modas_de ds \<noteq> []" using set_modas_de [of ds] by auto
  then have hd: "py_getitem (modas_de ds) 0 = Inr (hd (modas_de ds))"
    by (cases "modas_de ds") (simp_all add: py_getitem_def)
  show ?thesis
    by (simp add: calcular_moda_def init_def contar_vacio o_def mx modas_filtradas
        modas_de_def [symmetric] length_modas_de hd Let_def)
qed

lemma cuenta_distinct: "distinct xs \<Longrightarrow> x \<in> set xs \<Longrightarrow> count_list xs x = 1"
  by (induction xs) auto

lemma empatados_todos: "ds \<noteq> [] \<Longrightarrow> card (empatados ds) = length ds \<longleftrightarrow> distinct ds"
proof
  assume ne: "ds \<noteq> []" and c: "card (empatados ds) = length ds"
  have "empatados ds \<subseteq> set ds" by (auto simp: empatados_def)
  then have "card (empatados ds) \<le> card (set ds)" by (simp add: card_mono)
  with c have "length ds \<le> card (set ds)" by simp
  with card_length [of ds] have "card (set ds) = length ds" by simp
  then show "distinct ds" by (rule card_distinct)
next
  assume ne: "ds \<noteq> []" and d: "distinct ds"
  then have one: "\<forall>v\<in>set ds. count_list ds v = 1"
    by (simp add: cuenta_distinct)
  then have "count_list ds ` set ds = {1}" using ne by (cases ds) auto
  then have "frecuencia_maxima ds = 1" by (simp add: frecuencia_maxima_def)
  with one have "empatados ds = set ds" by (auto simp: empatados_def)
  with d show "card (empatados ds) = length ds" by (simp add: distinct_card)
qed

lemma modas_unica:
  assumes "card (empatados ds) = 1"
  shows "empatados ds = {hd (modas_de ds)}"
proof -
  from assms have "length (modas_de ds) = 1" by (simp add: length_modas_de)
  then obtain m where m: "modas_de ds = [m]"
    by (cases "modas_de ds") simp_all
  with set_modas_de [of ds] show ?thesis by simp
qed

lemma empatados_no_vacio: "ds \<noteq> [] \<Longrightarrow> 0 < card (empatados ds)"
proof -
  assume ne: "ds \<noteq> []"
  then have "Max (count_list ds ` set ds) \<in> count_list ds ` set ds"
    by (intro Max_in) auto
  then have "empatados ds \<noteq> {}" by (auto simp: empatados_def frecuencia_maxima_def)
  moreover have "finite (empatados ds)" by (simp add: empatados_def)
  ultimately show ?thesis by (simp add: card_gt_0_iff)
qed

text \<open>
  C1. For every non-empty dataset of size n, with k the number of values tied at the maximum
  frequency: if k = n the result is the no-mode message; otherwise, if k > 1, the result is the
  multiple-modes message, listing the tied values; otherwise the result is the one most
  frequent value. k = n holds exactly when every value occurs once, so a dataset of size 1
  has no mode.
\<close>

theorem moda_clasificacion:
  assumes "ds \<noteq> []"
  shows "(card (empatados ds) = length ds \<longrightarrow> calcular_moda (init ds) = Inr SinModa)
       \<and> (card (empatados ds) \<noteq> length ds \<and> 1 < card (empatados ds) \<longrightarrow>
            (\<exists>ms. calcular_moda (init ds) = Inr (ModasMultiples ms) \<and> set ms = empatados ds))
       \<and> (card (empatados ds) \<noteq> length ds \<and> \<not> 1 < card (empatados ds) \<longrightarrow>
            (\<exists>m. calcular_moda (init ds) = Inr (Moda m) \<and> empatados ds = {m}))
       \<and> (card (empatados ds) = length ds \<longleftrightarrow> distinct ds)
       \<and> (length ds = 1 \<longrightarrow> calcular_moda (init ds) = Inr SinModa)"
proof -
  note eq = calcular_moda_eq [OF assms]
  have a: "card (empatados ds) = length ds \<longrightarrow> calcular_moda (init ds) = Inr SinModa"
    by (simp add: eq)
  have b: "card (empatados ds) \<noteq> length ds \<and> 1 < card (empatados ds) \<longrightarrow>
            (\<exists>ms. calcular_moda (init ds) = Inr (ModasMultiples ms) \<and> set ms = empatados ds)"
    by (simp add: eq set_modas_de)
  have c: "card (empatados ds) \<noteq> length ds \<and> \<not> 1 < card (empatados ds) \<longrightarrow>
            (\<exists>m. calcular_moda (init ds) = Inr (Moda m) \<and> empatados ds = {m})"
  proof
    assume h: "card (empatados ds) \<noteq> length ds \<and> \<not> 1 < card (empatados ds)"
    with empatados_no_vacio [OF assms] have "card (empatados ds) = 1" by simp
    from modas_unica [OF this] h show
      "\<exists>m. calcular_moda (init ds) = Inr (Moda m) \<and> empatados ds = {m}"
      by (simp add: eq)
  qed
  have d: "card (empatados ds) = length ds \<longleftrightarrow> distinct ds"
    using assms by (rule empatados_todos)
  have e: "length ds = 1 \<longrightarrow> calcular_moda (init ds) = Inr SinModa"
  proof
    assume "length ds = 1"
    then obtain x where "ds = [x]" by (cases ds) simp_all
    then have "distinct ds" by simp
    with d a show "calcular_moda (init ds) = Inr SinModa" by simp
  qed
  from a b c d e show ?thesis by blast
qed

theorem moda_clasificacion_witness:
  "calcular_moda (init [5]) = Inr SinModa
   \<and> calcular_moda (init [1, 2, 3, 4]) = Inr SinModa
   \<and> (\<exists>ms. calcular_moda (init [1, 1, 2, 2, 3]) = Inr (ModasMultiples ms) \<and> set ms = {1, 2})
   \<and> calcular_moda (init [1, 2, 2, 3]) = Inr (Moda 2)
   \<and> calcular_moda (init [4, 4, 4]) = Inr (Moda 4)"
proof -
  have e1: "empatados [1, 1, 2, 2, 3] = {1, 2}" and e2: "empatados [1, 2, 2, 3] = {2}"
    and e3: "empatados [4, 4, 4] = {4}"
    by (simp_all add: set_modas_de [symmetric] modas_de_def frecuencia_maxima_def)
  have "calcular_moda (init [5]) = Inr SinModa"
    using moda_clasificacion [of "[5]"] by simp
  moreover have "calcular_moda (init [1, 2, 3, 4]) = Inr SinModa"
    using moda_clasificacion [of "[1, 2, 3, 4]"] by simp
  moreover have "\<exists>ms. calcular_moda (init [1, 1, 2, 2, 3]) = Inr (ModasMultiples ms) \<and> set ms = {1, 2}"
    using moda_clasificacion [of "[1, 1, 2, 2, 3]"] by (simp add: e1)
  moreover have "calcular_moda (init [1, 2, 2, 3]) = Inr (Moda 2)"
    using moda_clasificacion [of "[1, 2, 2, 3]"] by (simp add: e2)
  moreover have "calcular_moda (init [4, 4, 4]) = Inr (Moda 4)"
    using moda_clasificacion [of "[4, 4, 4]"] by (simp add: e3)
  ultimately show ?thesis by blast
qed

text \<open>
  The multiple-modes result lists \<open>modas_de ds\<close> whenever more than one value, and not as
  many values as the dataset has elements, is tied.
\<close>

lemma modas_multiples_general:
  assumes "ds \<noteq> []" and "1 < card (empatados ds)" and "card (empatados ds) \<noteq> length ds"
  shows "calcular_moda (init ds) = Inr (ModasMultiples (modas_de ds))"
  using assms by (simp add: calcular_moda_eq)

text \<open>
  C2. For every non-empty dataset in which more than one, but not every, distinct value is
  tied at the maximum frequency, the mode operation returns the multiple-modes result whose
  list holds exactly the tied values, each once, in the order of their first occurrence in
  the dataset.
\<close>

theorem modas_en_orden_de_aparicion:
  assumes "ds \<noteq> []" and "1 < card (empatados ds)" and "card (empatados ds) < card (set ds)"
  shows "\<exists>ms. calcular_moda (init ds) = Inr (ModasMultiples ms)
           \<and> set ms = empatados ds \<and> distinct ms
           \<and> sorted_wrt (\<lambda>a b. primera_posicion ds a < primera_posicion ds b) ms"
proof -
  from assms(3) card_length [of ds] have "card (empatados ds) \<noteq> length ds" by simp
  from modas_multiples_general [OF assms(1,2) this] show ?thesis
    by (auto simp: set_modas_de distinct_modas_de modas_de_en_orden)
qed

theorem modas_en_orden_de_aparicion_witness:
  "[2, 1, 3, 1, 2] \<noteq> ([] :: real list)
   \<and> 1 < card (empatados [2, 1, 3, 1, 2])
   \<and> card (empatados [2, 1, 3, 1, 2]) < card (set [2, 1, 3, 1, 2 :: real])
   \<and> calcular_moda (init [2, 1, 3, 1, 2]) = Inr (ModasMultiples [2, 1])"
proof -
  let ?ds = "[2, 1, 3, 1, 2] :: real list"
  have e: "empatados ?ds = {1, 2}"
    by (simp add: set_modas_de [symmetric] modas_de_def frecuencia_maxima_def insert_commute)
  have c: "card (set ?ds) = 3"
    by (simp add: card_insert_if)
  have h1: "?ds \<noteq> []" and h2: "1 < card (empatados ?ds)"
    and h3: "card (empatados ?ds) < card (set ?ds)"
    by (simp_all add: e c del: set_simps)
  have p: "primera_posicion ?ds 2 = 0" "primera_posicion ?ds 1 = 1"
    by (simp_all add: primera_posicion_def)
  obtain ms where r: "calcular_moda (init ?ds) = Inr (ModasMultiples ms)"
    and s: "set ms = {1, 2}" and d: "distinct ms"
    and o: "sorted_wrt (\<lambda>a b. primera_posicion ?ds a < primera_posicion ?ds b) ms"
    using modas_en_orden_de_aparicion [OF h1 h2 h3] by (auto simp: e)
  from s d have "length ms = 2" using distinct_card [of ms] by simp
  then obtain a b where ms: "ms = [a, b]"
    by (cases ms; cases "tl ms"; cases "tl (tl ms)") auto
  with s d o p have "a = 2 \<and> b = 1" by (auto simp: doubleton_eq_iff)
  with r ms h1 h2 h3 show ?thesis by simp
qed

section \<open>Variance, standard deviation and totality\<close>










section \<open>The file reader\<close>

lemma leer_lineas_numeros:
  "fst (leer_lineas n ls (numeros, salida))
     = numeros @ List.map_filter (\<lambda>l. py_float (py_strip l)) ls"
  by (induction ls arbitrary: n numeros salida) (auto simp: map_filter_simps split: option.splits)

lemma leer_archivo_contenido:
  "snd (leer_archivo (Contenido ls)) =
     (let numeros = List.map_filter (\<lambda>l. py_float (py_strip l)) ls
      in if numeros = [] then Inl (ArchivoError SinNumeros) else Inr numeros)"
proof -
  obtain numeros salida where r: "leer_lineas 1 ls ([], []) = (numeros, salida)"
    by (cases "leer_lineas 1 ls ([], [])")
  from leer_lineas_numeros [of 1 ls "[]" "[]"] r
  have "numeros = List.map_filter (\<lambda>l. py_float (py_strip l)) ls" by simp
  with r show ?thesis by (simp add: leer_archivo_def Let_def)
qed

lemma map_filter_ninguno: "\<forall>l\<in>set ls. f l = None \<Longrightarrow> List.map_filter f ls = []"
  by (induction ls) (simp_all add: map_filter_simps)

text \<open>
  C9. For every input file, \<open>leer_archivo\<close> either raises ArchivoError or returns a list of
  numbers that is not empty. It raises ArchivoError when no line parses as a number, when
  the file does not exist and when reading it fails.
\<close>

theorem leer_archivo_nunca_vacio:
  "((\<exists>c. snd (leer_archivo a) = Inl (ArchivoError c))
      \<or> (\<exists>numeros. snd (leer_archivo a) = Inr numeros \<and> numeros \<noteq> []))
   \<and> ((\<forall>l\<in>set ls. py_float (py_strip l) = None) \<longrightarrow>
         snd (leer_archivo (Contenido ls)) = Inl (ArchivoError SinNumeros))
   \<and> snd (leer_archivo NoExiste) = Inl (ArchivoError NoEncontrado)
   \<and> snd (leer_archivo (Interrumpido ls)) = Inl (ArchivoError ErrorLectura)"
proof -
  have a: "(\<exists>c. snd (leer_archivo a) = Inl (ArchivoError c))
      \<or> (\<exists>numeros. snd (leer_archivo a) = Inr numeros \<and> numeros \<noteq> [])"
  proof (cases a)
    case NoExiste
    then show ?thesis by (simp add: leer_archivo_def)
  next
    case (Contenido lineas)
    then show ?thesis by (simp add: leer_archivo_contenido Let_def)
  next
    case (Interrumpido lineas)
    then show ?thesis by (simp add: leer_archivo_def)
  qed
  have b: "(\<forall>l\<in>set ls. py_float (py_strip l) = None) \<longrightarrow>
         snd (leer_archivo (Contenido ls)) = Inl (ArchivoError SinNumeros)"
    by (simp add: leer_archivo_contenido map_filter_ninguno)
  have c: "snd (leer_archivo NoExiste) = Inl (ArchivoError NoEncontrado)"
    and d: "snd (leer_archivo (Interrumpido ls)) = Inl (ArchivoError ErrorLectura)"
    by (simp_all add: leer_archivo_def)
  from a b c d show ?thesis by blast
qed

theorem leer_archivo_nunca_vacio_witness:
  "py_float (py_strip (''hola'' @ [CHR 0x0A])) = None \<and> py_float (py_strip []) = None
   \<and> snd (leer_archivo (Contenido [''hola'' @ [CHR 0x0A], []])) = Inl (ArchivoError SinNumeros)"
proof -
  have h: "py_float (py_strip (''hola'' @ [CHR 0x0A])) = None" "py_float (py_strip []) = None"
    by (simp_all add: py_float_def py_strip_def es_espacio_def minuscula_def floatnumber_def
        numero_decimal_def es_digito_def)
  then have "\<forall>l\<in>set [''hola'' @ [CHR 0x0A], []]. py_float (py_strip l) = None" by simp
  with leer_archivo_nunca_vacio [of _ "[''hola'' @ [CHR 0x0A], []]"] h show ?thesis by blast
qed

text \<open>
  C10. There are input files for which \<open>leer_archivo\<close> returns a list with a non-finite value:
  the lines "inf", "nan" and "-Infinity" are accepted like any other line that \<open>float()\<close>
  parses; they are neither rejected nor skipped, and nothing is printed for them.
\<close>

theorem leer_archivo_acepta_no_finitos:
  "leer_archivo (Contenido [''inf'' @ [CHR 0x0A], ''nan'' @ [CHR 0x0A], ''-Infinity''])
     = ([], Inr [Inf, NaN, NegInf])
   \<and> leer_archivo (Contenido [''1.5'' @ [CHR 0x0A], ''NaN'' @ [CHR 0x0A]])
     = ([], Inr [Finito (3 / 2), NaN])"
  by (simp add: leer_archivo_def py_float_def py_strip_def es_espacio_def minuscula_def
      floatnumber_def numero_decimal_def es_digito_def valor_digito_def limite_double_def)

end
